theory Spec2Isabelle
  imports Complex_Main "HOL-Library.Sublist"
begin

section \<open>Strings\<close>

text \<open>
  A Python \<open>str\<close> is a sequence of Unicode code points. The source compares narration
  characters with full-width punctuation (U+3002, U+FF0C, U+FF01, U+FF1F), which an
  8-bit \<open>char\<close> cannot hold, so a string is modelled as the list of its code points.
  \<open>str\<close> embeds an ASCII literal.
\<close>

type_synonym pystr = "nat list"

definition str :: "string \<Rightarrow> pystr" where
  "str s = map of_char s"

text \<open>The code points for which \<open>str.isspace\<close> holds; \<open>str.strip()\<close> removes them at both ends.\<close>

definition isspace :: "nat \<Rightarrow> bool" where
  "isspace c = (c \<in> set [9, 10, 11, 12, 13, 28, 29, 30, 31, 32, 133, 160, 5760,
     8192, 8193, 8194, 8195, 8196, 8197, 8198, 8199, 8200, 8201, 8202,
     8232, 8233, 8239, 8287, 12288])"

definition strip :: "pystr \<Rightarrow> pystr" where
  "strip s = rev (dropWhile isspace (rev (dropWhile isspace s)))"


section \<open>Subtitle wrapping (\<open>VideoComposer._add_subtitle_to_image\<close>, lines 44-57)\<close>

definition max_chars_per_line :: nat where
  "max_chars_per_line = 40"

text \<open>The break characters \<open>" .,!?\<close> followed by the four full-width marks.\<close>

definition break_chars :: "nat list" where
  "break_chars = [32, 46, 44, 33, 63, 12290, 65292, 65281, 65311]"

text \<open>
  The \<open>for char in text\<close> loop, with the two variables it updates: the list \<open>lines\<close> and
  the string \<open>current_line\<close>.
\<close>

fun wrap_loop :: "pystr \<Rightarrow> pystr list \<Rightarrow> pystr \<Rightarrow> pystr list \<times> pystr" where
  "wrap_loop [] lines current_line = (lines, current_line)"
| "wrap_loop (char # rest) lines current_line =
     (let current_line = current_line @ [char] in
      if length current_line \<ge> max_chars_per_line \<and> char \<in> set break_chars
      then wrap_loop rest (lines @ [strip current_line]) []
      else wrap_loop rest lines current_line)"

text \<open>The loop followed by \<open>if current_line: lines.append(current_line.strip())\<close>.\<close>

definition wrap_text :: "pystr \<Rightarrow> pystr list" where
  "wrap_text text =
     (case wrap_loop text [] [] of
        (lines, current_line) \<Rightarrow>
          if current_line \<noteq> [] then lines @ [strip current_line] else lines)"

text \<open>\<open>if len(lines) > 2: lines = [lines[0], lines[1] + "..."]\<close>\<close>

definition cap_lines :: "pystr list \<Rightarrow> pystr list" where
  "cap_lines lines =
     (if length lines > 2 then [lines ! 0, (lines ! 1) @ str ''...''] else lines)"

definition subtitle_lines :: "pystr \<Rightarrow> pystr list" where
  "subtitle_lines text = cap_lines (wrap_text text)"


section \<open>Frames and drawing\<close>

text \<open>
  A frame is the array of shape (rows, columns, 3) that \<open>np.array(img)\<close> gives: a list of
  rows of RGB pixels. Its shape is the list of its row lengths, whose length is the
  number of rows.
\<close>

type_synonym pixel = "nat \<times> nat \<times> nat"
type_synonym frame = "pixel list list"

definition frame_shape :: "frame \<Rightarrow> nat list" where
  "frame_shape img = map length img"

text \<open>
  The drawing library clips every operation to the image. \<open>draw.rectangle\<close> fills the
  pixels with \<open>x0 \<le> x \<le> x1\<close> and \<open>y0 \<le> y \<le> y1\<close>; on an RGB image the alpha of the fill
  \<open>(0, 0, 0, 180)\<close> is dropped.
\<close>

definition draw_rectangle :: "frame \<Rightarrow> int \<Rightarrow> int \<Rightarrow> int \<Rightarrow> int \<Rightarrow> pixel \<Rightarrow> frame" where
  "draw_rectangle img x0 y0 x1 y1 fill =
     map (\<lambda>(y, row).
            map (\<lambda>(x, p). if x0 \<le> int x \<and> int x \<le> x1 \<and> y0 \<le> int y \<and> int y \<le> y1
                           then fill else p)
                (enumerate 0 row))
         (enumerate 0 img)"

definition put_pixel :: "frame \<Rightarrow> int \<Rightarrow> int \<Rightarrow> pixel \<Rightarrow> frame" where
  "put_pixel img x y fill =
     (if 0 \<le> y \<and> nat y < length img \<and> 0 \<le> x \<and> nat x < length (img ! nat y)
      then img[nat y := (img ! nat y)[nat x := fill]]
      else img)"

text \<open>
  The font is found at run time (\<open>malgun.ttf\<close>, then \<open>NanumGothic.ttf\<close>, then the built-in
  default), so it is a parameter: the width \<open>draw.textbbox\<close> measures for a line, and the
  pixels a line inks, as offsets from the anchor of \<open>draw.text\<close>.
\<close>

record font =
  text_width :: "pystr \<Rightarrow> int"
  glyph_pixels :: "pystr \<Rightarrow> (int \<times> int) list"

definition draw_text :: "font \<Rightarrow> frame \<Rightarrow> int \<Rightarrow> int \<Rightarrow> pystr \<Rightarrow> pixel \<Rightarrow> frame" where
  "draw_text fnt img x y line fill =
     foldl (\<lambda>im (dx, dy). put_pixel im (x + dx) (y + dy) fill) img (glyph_pixels fnt line)"


section \<open>The composer and its subtitle overlay\<close>

record composer =
  width :: int
  height :: int
  fps :: int
  enable_subtitles :: bool
  enable_transitions :: bool
  transition_duration :: real

text \<open>The \<open>for i, line in enumerate(lines)\<close> loop: a shadow pass, then the text.\<close>

fun draw_lines :: "composer \<Rightarrow> font \<Rightarrow> int \<Rightarrow> int \<Rightarrow> frame \<Rightarrow> (nat \<times> pystr) list \<Rightarrow> frame" where
  "draw_lines vc fnt y_start line_height img [] = img"
| "draw_lines vc fnt y_start line_height img ((i, line) # rest) =
     (let x = (width vc - text_width fnt line) div 2;
          y = y_start + int i * line_height;
          img = draw_text fnt img (x + 2) (y + 2) line (0, 0, 0);
          img = draw_text fnt img x y line (255, 255, 255)
      in draw_lines vc fnt y_start line_height img rest)"

definition add_subtitle_to_image :: "composer \<Rightarrow> font \<Rightarrow> frame \<Rightarrow> pystr \<Rightarrow> frame" where
  "add_subtitle_to_image vc fnt img_array text =
     (let lines = subtitle_lines text;
          line_height = 45;
          total_height = int (length lines) * line_height;
          y_start = height vc - total_height - 60;
          padding = 20;
          bg_top = y_start - padding;
          bg_bottom = height vc - 40;
          img = draw_rectangle img_array 0 bg_top (width vc) bg_bottom (0, 0, 0)
      in draw_lines vc fnt y_start line_height img (enumerate 0 lines))"


section \<open>Data model (\<open>models.py\<close>)\<close>

text \<open>
  Durations are Python floats. The model leaves their type \<open>'d\<close> open and uses only its
  \<open>0\<close> and \<open>+\<close>, without any law of arithmetic, so what is proved holds for floating-point
  addition as it does for the reals.
\<close>

record 'd scene =
  scene_number :: int
  narration :: pystr
  image_prompt :: pystr
  duration :: "'d option"
  image_path :: "pystr option"
  audio_path :: "pystr option"

record 'd script =
  title :: pystr
  scenes :: "'d scene list"

definition total_scenes :: "'d script \<Rightarrow> nat" where
  "total_scenes script = length (scenes script)"

text \<open>\<open>sum(s.duration or 0 for s in self.scenes)\<close>: Python's \<open>sum\<close> adds from the left, starting at 0.\<close>

definition total_duration :: "('d::{zero,plus}) script \<Rightarrow> 'd" where
  "total_duration script =
     foldl (+) 0 (map (\<lambda>s. case duration s of None \<Rightarrow> 0 | Some d \<Rightarrow> d) (scenes script))"

datatype error =
    ValueError int    \<comment> \<open>the validation error of \<open>compose_scene\<close>, with the scene number of its message\<close>
  | DurationNotSet    \<comment> \<open>the \<open>ValueError\<close> of the video library's \<open>fadeout\<close>; its message names no scene\<close>
  | ConcatError       \<comment> \<open>the clips cannot be concatenated\<close>
  | EncodeError       \<comment> \<open>\<open>write_videofile\<close> failed\<close>
  | ApiError          \<comment> \<open>the language-model call or the parsing of its answer failed\<close>


section \<open>Clips\<close>

text \<open>
  The video library's clip, reduced to what the composer sets on it: the frame it shows,
  its duration, the fades applied (with their length), the audio file attached, and
  whether it has been closed. Each library call is the update of the field it sets.
  One failure inside the library is modelled, that of \<open>fadeout\<close> below; an unreadable
  image or audio file is outside the model.
\<close>

record 'd clip =
  clip_frame :: frame
  clip_duration :: "'d option"
  clip_fadein :: "real option"
  clip_fadeout :: "real option"
  clip_audio :: "pystr option"
  clip_closed :: bool

definition ImageClip :: "frame \<Rightarrow> 'd clip" where
  "ImageClip img_array =
     \<lparr>clip_frame = img_array, clip_duration = None, clip_fadein = None,
      clip_fadeout = None, clip_audio = None, clip_closed = False\<rparr>"

definition set_duration :: "'d clip \<Rightarrow> 'd option \<Rightarrow> 'd clip" where
  "set_duration c t = c\<lparr>clip_duration := t\<rparr>"

definition fadein :: "'d clip \<Rightarrow> real \<Rightarrow> 'd clip" where
  "fadein c t = c\<lparr>clip_fadein := Some t\<rparr>"

text \<open>
  The library's \<open>fadeout\<close> fades towards the end of the clip, so it requires the clip's
  duration: on a clip whose duration is \<open>None\<close> it raises a \<open>ValueError\<close>. \<open>fadein\<close> counts
  from the start of the clip and has no such requirement.
\<close>

definition fadeout :: "'d clip \<Rightarrow> real \<Rightarrow> error + 'd clip" where
  "fadeout c t =
     (case clip_duration c of
        None \<Rightarrow> Inl DurationNotSet
      | Some d \<Rightarrow> Inr (c\<lparr>clip_fadeout := Some t\<rparr>))"

definition set_audio :: "'d clip \<Rightarrow> pystr \<Rightarrow> 'd clip" where
  "set_audio c a = c\<lparr>clip_audio := Some a\<rparr>"

definition close_clip :: "'d clip \<Rightarrow> 'd clip" where
  "close_clip c = c\<lparr>clip_closed := True\<rparr>"

text \<open>The concatenated clip: copies of its parts, their start times, its duration.\<close>

record 'd timeline =
  tl_clips :: "'d clip list"
  tl_start_times :: "'d list"
  tl_duration :: 'd
  tl_closed :: bool

definition close_timeline :: "'d timeline \<Rightarrow> 'd timeline" where
  "close_timeline t = t\<lparr>tl_closed := True\<rparr>"

fun clip_durations :: "'d clip list \<Rightarrow> 'd list option" where
  "clip_durations [] = Some []"
| "clip_durations (c # cs) =
     (case clip_duration c of
        None \<Rightarrow> None
      | Some d \<Rightarrow> map_option ((#) d) (clip_durations cs))"

text \<open>The running sums \<open>[acc, acc + d1, (acc + d1) + d2, ...]\<close>.\<close>

fun cumsum :: "('d::plus) \<Rightarrow> 'd list \<Rightarrow> 'd list" where
  "cumsum acc [] = [acc]"
| "cumsum acc (d # ds) = acc # cumsum (acc + d) ds"

text \<open>
  Modelled from the spec: the video library's \<open>concatenate_videoclips\<close>, which is not part
  of the repository. "Concatenate clips end-to-end preserving order": clip \<open>k\<close> starts
  where clip \<open>k - 1\<close> ends, and the result ends where the last clip ends. "A zero-length
  scene list is reported to the caller": an empty list is an error, and so is a clip
  with no duration, which has no end to start the next clip at.
\<close>

definition concatenate_videoclips :: "('d::{zero,plus}) clip list \<Rightarrow> error + 'd timeline" where
  "concatenate_videoclips clips =
     (if clips = [] then Inl ConcatError
      else case clip_durations clips of
             None \<Rightarrow> Inl ConcatError
           | Some ds \<Rightarrow>
               let tt = cumsum 0 ds
               in Inr \<lparr>tl_clips = clips, tl_start_times = butlast tt,
                       tl_duration = last tt, tl_closed = False\<rparr>)"


section \<open>The world outside the composer\<close>

text \<open>
  What the composer reads and calls but does not define: the image files
  (\<open>Image.open\<close>), the resampling filter of \<open>img.resize\<close>, the font found on the system,
  Unicode's \<open>str.isalnum\<close>, the path \<open>OUTPUT_DIR / name\<close>, and the encoder behind
  \<open>write_videofile\<close>, which returns \<open>True\<close> when it succeeds and \<open>False\<close> when it raises.
\<close>

record 'd world =
  open_image :: "pystr \<Rightarrow> frame"
  resize :: "frame \<Rightarrow> int \<Rightarrow> int \<Rightarrow> frame"
  system_font :: font
  isalnum :: "nat \<Rightarrow> bool"
  output_dir :: "pystr \<Rightarrow> pystr"
  write_videofile :: "'d timeline \<Rightarrow> pystr \<Rightarrow> int \<Rightarrow> bool"


section \<open>\<open>VideoComposer\<close>\<close>

definition create_fade_effect ::
  "composer \<Rightarrow> 'd clip \<Rightarrow> bool \<Rightarrow> bool \<Rightarrow> error + 'd clip" where
  "create_fade_effect vc c fade_in fade_out =
     (let c = (if fade_in \<and> transition_duration vc > 0
               then fadein c (transition_duration vc) else c)
      in if fade_out \<and> transition_duration vc > 0
         then fadeout c (transition_duration vc) else Inr c)"

text \<open>
  Lines 121-131 of \<open>compose_scene\<close>: the image is loaded and resized, the subtitle is drawn
  when subtitles are enabled and the narration is not empty (\<open>scene.narration\<close> is false
  when empty), and the image clip is built and given the scene's duration.
\<close>

definition scene_image_clip :: "composer \<Rightarrow> 'd world \<Rightarrow> 'd scene \<Rightarrow> pystr \<Rightarrow> 'd clip" where
  "scene_image_clip vc w scene ip =
     (let img = open_image w ip;
          img = resize w img (width vc) (height vc);
          img_array = img;
          img_array = (if enable_subtitles vc \<and> narration scene \<noteq> []
                       then add_subtitle_to_image vc (system_font w) img_array (narration scene)
                       else img_array);
          image_clip = ImageClip img_array;
          image_clip = set_duration image_clip (duration scene)
      in image_clip)"

text \<open>
  \<open>not scene.image_path or not scene.audio_path\<close>: the fields are \<open>Optional[Path]\<close>, and a
  \<open>Path\<close> is always true, so the test is for \<open>None\<close>. After the check come the image clip
  of lines 121-131, the fades, where an error of the library leaves the function, and
  the audio.
\<close>

definition compose_scene ::
  "composer \<Rightarrow> 'd world \<Rightarrow> 'd scene \<Rightarrow> bool \<Rightarrow> bool \<Rightarrow> error + 'd clip" where
  "compose_scene vc w scene is_first is_last =
     (case image_path scene of
        None \<Rightarrow> Inl (ValueError (scene_number scene))
      | Some ip \<Rightarrow>
     (case audio_path scene of
        None \<Rightarrow> Inl (ValueError (scene_number scene))
      | Some ap \<Rightarrow>
          let image_clip = scene_image_clip vc w scene ip
          in case (if enable_transitions vc
                   then create_fade_effect vc image_clip is_first is_last
                   else Inr image_clip) of
               Inl e \<Rightarrow> Inl e
             | Inr image_clip \<Rightarrow> Inr (set_audio image_clip ap)))"

text \<open>
  The loop of \<open>compose\<close> over \<open>enumerate(script.scenes)\<close>; \<open>n_scenes\<close> is the source's local
  \<open>total_scenes\<close>. An error of \<open>compose_scene\<close> leaves the loop; the clips built before it
  stay as they are.
\<close>

fun compose_clips ::
  "composer \<Rightarrow> 'd world \<Rightarrow> nat \<Rightarrow> (nat \<times> 'd scene) list \<Rightarrow> 'd clip list
     \<Rightarrow> error option \<times> 'd clip list" where
  "compose_clips vc w n_scenes [] clips = (None, clips)"
| "compose_clips vc w n_scenes ((i, scene) # rest) clips =
     (let is_first = (i = 0);
          is_last = (int i = int n_scenes - 1)
      in case compose_scene vc w scene is_first is_last of
           Inl e \<Rightarrow> (Some e, clips)
         | Inr c \<Rightarrow> compose_clips vc w n_scenes rest (clips @ [c]))"

definition safe_title :: "'d world \<Rightarrow> pystr \<Rightarrow> pystr" where
  "safe_title w t = strip (filter (\<lambda>c. isalnum w c \<or> c \<in> set [32, 45, 95]) t)"

text \<open>
  What \<open>compose\<close> leaves behind: its result (the output path, or the error raised), the
  scene clips it created and the concatenated clip, each with its closed flag.
\<close>

record 'd composed =
  outcome :: "error + pystr"
  scene_clips :: "'d clip list"
  final_clip :: "'d timeline option"

definition compose :: "composer \<Rightarrow> ('d::{zero,plus}) world \<Rightarrow> 'd script \<Rightarrow> pystr option \<Rightarrow> 'd composed" where
  "compose vc w script output_filename =
     (let n_scenes = length (scenes script)
      in case compose_clips vc w n_scenes (enumerate 0 (scenes script)) [] of
           (Some e, clips) \<Rightarrow> \<lparr>outcome = Inl e, scene_clips = clips, final_clip = None\<rparr>
         | (None, clips) \<Rightarrow>
        (case concatenate_videoclips clips of
           Inl e \<Rightarrow> \<lparr>outcome = Inl e, scene_clips = clips, final_clip = None\<rparr>
         | Inr final \<Rightarrow>
             let output_filename =
                   (case output_filename of
                      None \<Rightarrow> safe_title w (title script) @ str ''.mp4''
                    | Some n \<Rightarrow> n);
                 output_path = output_dir w output_filename
             in if write_videofile w final output_path (fps vc)
                then \<lparr>outcome = Inr output_path,
                      scene_clips = map close_clip clips,
                      final_clip = Some (close_timeline final)\<rparr>
                else \<lparr>outcome = Inl EncodeError, scene_clips = clips,
                      final_clip = Some final\<rparr>))"


section \<open>Resolution presets (\<open>config.py\<close>) and the pipeline's composer\<close>

definition DEFAULT_VIDEO_WIDTH :: int where "DEFAULT_VIDEO_WIDTH = 1920"
definition DEFAULT_VIDEO_HEIGHT :: int where "DEFAULT_VIDEO_HEIGHT = 1080"
definition DEFAULT_FPS :: int where "DEFAULT_FPS = 30"

definition RESOLUTION_PRESETS :: "(pystr \<times> int \<times> int) list" where
  "RESOLUTION_PRESETS =
     [(str ''720p'', (1280, 720)),
      (str ''1080p'', (1920, 1080)),
      (str ''1440p'', (2560, 1440)),
      (str ''4k'', (3840, 2160))]"

text \<open>
  \<open>VideoComposer(width=..., height=..., enable_subtitles=..., enable_transitions=...)\<close> as
  the pipeline calls it: \<open>fps\<close> and \<open>transition_duration\<close> keep their defaults.
\<close>

definition VideoComposer :: "int \<Rightarrow> int \<Rightarrow> bool \<Rightarrow> bool \<Rightarrow> composer" where
  "VideoComposer w h subtitles transitions =
     \<lparr>width = w, height = h, fps = DEFAULT_FPS, enable_subtitles = subtitles,
      enable_transitions = transitions, transition_duration = 1 / 2\<rparr>"

text \<open>
  \<open>RESOLUTION_PRESETS.get(resolution, RESOLUTION_PRESETS["1080p"])\<close>. The default is
  looked up first, and a missing \<open>"1080p"\<close> would be a \<open>KeyError\<close>.
\<close>

definition select_resolution :: "pystr \<Rightarrow> (int \<times> int) option" where
  "select_resolution resolution =
     (case map_of RESOLUTION_PRESETS (str ''1080p'') of
        None \<Rightarrow> None
      | Some dflt \<Rightarrow>
          (case map_of RESOLUTION_PRESETS resolution of
             None \<Rightarrow> Some dflt
           | Some p \<Rightarrow> Some p))"

record pipeline =
  video_composer :: composer
  use_placeholder :: bool
  target_duration :: int
  test_mode :: bool
  resolution :: pystr

text \<open>
  \<open>DDalkkakPipeline.__init__\<close>: the resolution lookup and the composer built from it.
  Of the script generator only its \<open>use_placeholder\<close> flag is kept; the construction of
  the three generators is outside the model.
\<close>

definition DDalkkakPipeline :: "int \<Rightarrow> bool \<Rightarrow> bool \<Rightarrow> bool \<Rightarrow> pystr \<Rightarrow> pipeline option" where
  "DDalkkakPipeline target test subtitles transitions res =
     (case select_resolution res of
        None \<Rightarrow> None
      | Some (w, h) \<Rightarrow>
          Some \<lparr>video_composer = VideoComposer w h subtitles transitions,
                use_placeholder = test, target_duration = target,
                test_mode = test, resolution = res\<rparr>)"


section \<open>\<open>ScriptGenerator\<close>\<close>

text \<open>\<open>str(n)\<close> for a natural number: its decimal digits.\<close>

fun str_of_nat :: "nat \<Rightarrow> pystr" where
  "str_of_nat n = (if n < 10 then [48 + n] else str_of_nat (n div 10) @ [48 + n mod 10])"

text \<open>The Korean and English pieces of the placeholder's f-strings, as code points.\<close>

definition narration_template :: "pystr \<Rightarrow> nat \<Rightarrow> pystr" where
  "narration_template prompt k =
     [51060, 44163, 51008, 32, 39] @ prompt @ [39, 50640, 32, 45824, 54620, 32]
     @ str_of_nat k
     @ [48264, 51704, 32, 51109, 47732, 51077, 45768, 45796, 46, 32,
        53580, 49828, 53944, 50857, 32, 45208, 47112, 51060, 49496, 51077, 45768, 45796, 46]"

definition image_prompt_template :: "pystr \<Rightarrow> nat \<Rightarrow> pystr" where
  "image_prompt_template prompt k =
     str ''Scene '' @ str_of_nat k @ str '' about '' @ prompt @ str '', digital art, colorful''"

definition Scene :: "int \<Rightarrow> pystr \<Rightarrow> pystr \<Rightarrow> 'd scene" where
  "Scene n narr ip =
     \<lparr>scene_number = n, narration = narr, image_prompt = ip,
      duration = None, image_path = None, audio_path = None\<rparr>"

text \<open>\<open>for i in range(min(num_scenes, 5))\<close>: at most five scenes, numbered \<open>i + 1\<close>.\<close>

definition generate_placeholder :: "pystr \<Rightarrow> int \<Rightarrow> 'd script" where
  "generate_placeholder prompt num_scenes =
     \<lparr>title = [53580, 49828, 53944, 58, 32] @ prompt,
      scenes = map (\<lambda>i. Scene (int i + 1)
                             (narration_template prompt (i + 1))
                             (image_prompt_template prompt (i + 1)))
                   [0 ..< nat (min num_scenes 5)]\<rparr>"

text \<open>\<open>num_scenes = max(5, target_duration // 18)\<close>, with Python's floor division.\<close>

definition num_scenes_for :: "int \<Rightarrow> int" where
  "num_scenes_for target = max 5 (target div 18)"

text \<open>
  The language model is outside the program: \<open>llm prompt num_scenes minutes\<close> stands for
  the call with the three values the message interpolates, followed by the extraction
  and parsing of the JSON answer; it gives the title and the scenes of the answer as
  (scene number, narration, image prompt), or \<open>None\<close> when the call or the parsing
  raises.
\<close>

type_synonym llm = "pystr \<Rightarrow> int \<Rightarrow> int \<Rightarrow> (pystr \<times> (int \<times> pystr \<times> pystr) list) option"

definition generate :: "bool \<Rightarrow> llm \<Rightarrow> pystr \<Rightarrow> int \<Rightarrow> error + 'd script" where
  "generate placeholder client prompt target =
     (let num_scenes = num_scenes_for target
      in if placeholder then Inr (generate_placeholder prompt num_scenes)
         else case client prompt num_scenes (target div 60) of
                None \<Rightarrow> Inl ApiError
              | Some (t, ss) \<Rightarrow>
                  Inr \<lparr>title = t,
                       scenes = map (\<lambda>(n, narr, ip). Scene n narr ip) ss\<rparr>)"


section \<open>Example values\<close>

text \<open>A narration of 81 full stops: two full lines of 40 and one character more.\<close>

definition sample_text :: pystr where
  "sample_text =
     [46, 46, 46, 46, 46, 46, 46, 46, 46, 46, 46, 46, 46, 46, 46, 46, 46, 46, 46, 46,
      46, 46, 46, 46, 46, 46, 46, 46, 46, 46, 46, 46, 46, 46, 46, 46, 46, 46, 46, 46,
      46, 46, 46, 46, 46, 46, 46, 46, 46, 46, 46, 46, 46, 46, 46, 46, 46, 46, 46, 46,
      46, 46, 46, 46, 46, 46, 46, 46, 46, 46, 46, 46, 46, 46, 46, 46, 46, 46, 46, 46,
      46]"

definition white :: pixel where
  "white = (255, 255, 255)"

text \<open>A font that inks one pixel at the anchor, whatever the line.\<close>

definition sample_font :: font where
  "sample_font = \<lparr>text_width = (\<lambda>line. int (length line)), glyph_pixels = (\<lambda>line. [(0, 0)])\<rparr>"

text \<open>
  A world with white images, an ASCII \<open>isalnum\<close>, and an encoder that succeeds or fails
  as its argument says.
\<close>

definition sample_world :: "bool \<Rightarrow> real world" where
  "sample_world encodes =
     \<lparr>open_image = (\<lambda>p. [[white]]),
      resize = (\<lambda>img w h. replicate (nat h) (replicate (nat w) white)),
      system_font = sample_font,
      isalnum = (\<lambda>c. (48 \<le> c \<and> c \<le> 57) \<or> (65 \<le> c \<and> c \<le> 90) \<or> (97 \<le> c \<and> c \<le> 122)),
      output_dir = (\<lambda>name. str ''output/'' @ name),
      write_videofile = (\<lambda>t path f. encodes)\<rparr>"

definition sample_scene :: "int \<Rightarrow> pystr \<Rightarrow> real option \<Rightarrow> real scene" where
  "sample_scene n narr d =
     \<lparr>scene_number = n, narration = narr, image_prompt = str ''art'', duration = d,
      image_path = Some (str ''image.png''), audio_path = Some (str ''audio.mp3'')\<rparr>"

text \<open>A scene with image and audio whose narration stage has not set the duration.\<close>

definition untimed_scene :: "real scene" where
  "untimed_scene = sample_scene 1 [] None"

definition sample_script :: "real script" where
  "sample_script =
     \<lparr>title = str ''demo'',
      scenes = [sample_scene 1 (str ''one'') (Some 2),
                sample_scene 2 (str ''two'') (Some 3),
                sample_scene 3 (str ''three'') (Some 4)]\<rparr>"

definition sample_composer :: "real \<Rightarrow> composer" where
  "sample_composer t =
     \<lparr>width = 1, height = 40, fps = 30, enable_subtitles = True,
      enable_transitions = True, transition_duration = t\<rparr>"

text \<open>A language model that cannot be reached.\<close>

definition offline :: llm where
  "offline prompt num_scenes minutes = None"


text \<open>A language model whose answer numbers its two scenes 2 and 1.\<close>

definition scripted :: llm where
  "scripted prompt num_scenes minutes =
     Some (str ''talk'', [(2, str ''second'', str ''blue''), (1, str ''first'', str ''red'')])"


section \<open>Shape of a frame under drawing\<close>

lemma put_pixel_shape: "frame_shape (put_pixel img x y c) = frame_shape img"
  by (simp add: frame_shape_def put_pixel_def map_update list_update_same_conv)

lemma draw_text_shape: "frame_shape (draw_text fnt img x y line c) = frame_shape img"
proof -
  have "frame_shape (foldl (\<lambda>im (dx, dy). put_pixel im (x + dx) (y + dy) c) img ps)
          = frame_shape img" for ps
    by (induction ps arbitrary: img) (simp_all add: put_pixel_shape split: prod.splits)
  then show ?thesis by (simp add: draw_text_def)
qed

lemma draw_rectangle_shape:
  "frame_shape (draw_rectangle img x0 y0 x1 y1 c) = frame_shape img"
  unfolding frame_shape_def draw_rectangle_def
  by (rule nth_equalityI) (simp_all add: nth_enumerate_eq split: prod.splits)

lemma draw_lines_shape: "frame_shape (draw_lines vc fnt ys lh img ls) = frame_shape img"
  by (induction vc fnt ys lh img ls rule: draw_lines.induct)
     (simp_all add: Let_def draw_text_shape)

text \<open>
  C9. For every input frame and every text, the frame the subtitle overlay renderer
  returns has the shape of the input frame: the same number of rows, and the same
  number of pixels in each row. This holds for every composer and every font, also when
  the frame is not of the composer's size.
\<close>

theorem overlay_keeps_dimensions:
  "frame_shape (add_subtitle_to_image vc fnt img_array text) = frame_shape img_array"
  by (simp add: add_subtitle_to_image_def Let_def draw_lines_shape draw_rectangle_shape)


section \<open>Subtitle wrapping\<close>

text \<open>
  C2. For every text, the renderer displays at most two entries of \<open>lines\<close>, and whenever
  wrapping gives more than two lines, the second displayed line ends with the marker
  \<open>...\<close>.
\<close>

theorem wrap_at_most_two_lines:
  "length (subtitle_lines text) \<le> 2 \<and>
   (length (wrap_text text) > 2 \<longrightarrow> suffix (str ''...'') (subtitle_lines text ! 1))"
  by (simp add: subtitle_lines_def cap_lines_def suffix_def)

theorem wrap_at_most_two_lines_witness:
  "length (wrap_text sample_text) > 2 \<and> length (subtitle_lines sample_text) \<le> 2
   \<and> suffix (str ''...'') (subtitle_lines sample_text ! 1)"
proof -
  have h: "length (wrap_text sample_text) > 2"
    by (simp add: sample_text_def wrap_text_def max_chars_per_line_def break_chars_def
        strip_def isspace_def Let_def)
  show ?thesis using h wrap_at_most_two_lines [of sample_text] by simp
qed


section \<open>Facts about \<open>compose_scene\<close>\<close>

lemmas sample_defs = sample_script_def sample_scene_def untimed_scene_def sample_world_def
  sample_composer_def sample_font_def white_def

lemmas compose_defs = compose_def compose_scene_def scene_image_clip_def create_fade_effect_def
  fadein_def fadeout_def set_audio_def set_duration_def ImageClip_def close_clip_def
  close_timeline_def concatenate_videoclips_def safe_title_def strip_def isspace_def str_def

lemma scene_image_clip_fields:
  "clip_duration (scene_image_clip vc w scene ip) = duration scene"
  "clip_fadein (scene_image_clip vc w scene ip) = None"
  "clip_fadeout (scene_image_clip vc w scene ip) = None"
  "\<not> clip_closed (scene_image_clip vc w scene ip)"
  by (simp_all add: scene_image_clip_def Let_def set_duration_def ImageClip_def)

text \<open>
  With both references set, the only error is that of the fade-out on an untimed clip,
  and it is raised exactly when the fade-out is applied to one.
\<close>

lemma compose_scene_refs:
  assumes "image_path scene = Some ip" and "audio_path scene = Some ap"
  shows "compose_scene vc w scene is_first is_last =
           (if enable_transitions vc \<and> is_last \<and> transition_duration vc > 0
               \<and> duration scene = None
            then Inl DurationNotSet
            else Inr (set_audio
                   ((if enable_transitions vc \<and> is_last \<and> transition_duration vc > 0
                     then (\<lambda>c. c\<lparr>clip_fadeout := Some (transition_duration vc)\<rparr>) else (\<lambda>c. c))
                    ((if enable_transitions vc \<and> is_first \<and> transition_duration vc > 0
                      then (\<lambda>c. fadein c (transition_duration vc)) else (\<lambda>c. c))
                     (scene_image_clip vc w scene ip))) ap))"
  using assms
  by (auto simp: compose_scene_def Let_def create_fade_effect_def fadeout_def fadein_def
      scene_image_clip_fields split: option.splits)

lemma compose_scene_Inr:
  "image_path scene \<noteq> None \<Longrightarrow> audio_path scene \<noteq> None \<Longrightarrow> duration scene \<noteq> None \<Longrightarrow>
   \<exists>c. compose_scene vc w scene is_first is_last = Inr c"
  by (auto simp: compose_scene_refs)

lemma compose_scene_fields:
  assumes "compose_scene vc w scene is_first is_last = Inr c"
  shows "clip_duration c = duration scene"
    and "\<not> clip_closed c"
    and "clip_fadein c =
           (if enable_transitions vc \<and> is_first \<and> transition_duration vc > 0
            then Some (transition_duration vc) else None)"
    and "clip_fadeout c =
           (if enable_transitions vc \<and> is_last \<and> transition_duration vc > 0
            then Some (transition_duration vc) else None)"
    and "\<exists>ip. image_path scene = Some ip \<and> clip_frame c = clip_frame (scene_image_clip vc w scene ip)"
proof -
  from assms obtain ip ap where refs: "image_path scene = Some ip" "audio_path scene = Some ap"
    by (auto simp: compose_scene_def split: option.splits)
  note eq = assms [unfolded compose_scene_refs [OF refs]]
  from eq show "clip_duration c = duration scene"
    by (auto simp: set_audio_def fadein_def scene_image_clip_fields split: if_splits)
  from eq show "\<not> clip_closed c"
    by (auto simp: set_audio_def fadein_def scene_image_clip_fields split: if_splits)
  from eq show "clip_fadein c =
           (if enable_transitions vc \<and> is_first \<and> transition_duration vc > 0
            then Some (transition_duration vc) else None)"
    by (auto simp: set_audio_def fadein_def scene_image_clip_fields split: if_splits)
  from eq show "clip_fadeout c =
           (if enable_transitions vc \<and> is_last \<and> transition_duration vc > 0
            then Some (transition_duration vc) else None)"
    by (auto simp: set_audio_def fadein_def scene_image_clip_fields split: if_splits)
  from eq refs
  show "\<exists>ip. image_path scene = Some ip \<and> clip_frame c = clip_frame (scene_image_clip vc w scene ip)"
    by (auto simp: set_audio_def fadein_def split: if_splits)
qed

lemma compose_scene_error:
  "compose_scene vc w s f l = Inl e \<Longrightarrow> e = ValueError (scene_number s) \<or> e = DurationNotSet"
  by (auto simp: compose_scene_def Let_def create_fade_effect_def fadeout_def
      split: option.splits if_splits sum.splits)


section \<open>The precondition of \<open>compose_scene\<close>\<close>

text \<open>
  C4. \<open>compose_scene\<close> fails with the validation error naming the scene exactly when the
  scene's image or audio reference is unset, and with both references set it raises no
  validation error, whatever scene number the error would name.
\<close>

theorem compose_scene_validation:
  "(compose_scene vc w scene is_first is_last = Inl (ValueError (scene_number scene)))
     = (image_path scene = None \<or> audio_path scene = None)
   \<and> (\<exists>n. compose_scene vc w scene is_first is_last = Inl (ValueError n))
     = (image_path scene = None \<or> audio_path scene = None)"
proof (cases "image_path scene = None \<or> audio_path scene = None")
  case True
  then have "compose_scene vc w scene is_first is_last = Inl (ValueError (scene_number scene))"
    by (auto simp: compose_scene_def split: option.splits)
  with True show ?thesis by auto
next
  case False
  then obtain ip ap where "image_path scene = Some ip" "audio_path scene = Some ap"
    by auto
  from compose_scene_refs [OF this, of vc w is_first is_last]
  have "compose_scene vc w scene is_first is_last \<noteq> Inl (ValueError n)" for n
    by (auto split: if_splits)
  with False show ?thesis by auto
qed

text \<open>
  C10. The precondition tests the image and audio references only. For a scene with both
  set, the image clip built at lines 130-131 has the scene's duration, set or not, and
  no validation error is raised. When the duration is unset, that clip has no duration;
  \<open>compose_scene\<close> returns it, still without a duration, unless a fade-out is applied
  (transitions enabled, last scene, transition duration above zero), where the library
  raises its own error on the untimed clip.
\<close>

theorem compose_scene_unset_duration:
  assumes "image_path scene = Some ip" and "audio_path scene = Some ap"
  shows "clip_duration (scene_image_clip vc w scene ip) = duration scene
       \<and> (\<forall>n. compose_scene vc w scene is_first is_last \<noteq> Inl (ValueError n))
       \<and> (duration scene = None \<longrightarrow>
            clip_duration (scene_image_clip vc w scene ip) = None
          \<and> (if enable_transitions vc \<and> is_last \<and> transition_duration vc > 0
              then compose_scene vc w scene is_first is_last = Inl DurationNotSet
              else (\<exists>c. compose_scene vc w scene is_first is_last = Inr c
                        \<and> clip_duration c = None)))"
proof -
  note eq = compose_scene_refs [OF assms, of vc w is_first is_last]
  have built: "clip_duration (scene_image_clip vc w scene ip) = duration scene"
    by (rule scene_image_clip_fields(1))
  have valid: "compose_scene vc w scene is_first is_last \<noteq> Inl (ValueError n)" for n
    using eq by (auto split: if_splits)
  have untimed:
    "if enable_transitions vc \<and> is_last \<and> transition_duration vc > 0
     then compose_scene vc w scene is_first is_last = Inl DurationNotSet
     else (\<exists>c. compose_scene vc w scene is_first is_last = Inr c \<and> clip_duration c = None)"
    if none: "duration scene = None"
  proof (cases "enable_transitions vc \<and> is_last \<and> transition_duration vc > 0")
    case True
    with eq none show ?thesis by simp
  next
    case False
    with eq obtain c where c: "compose_scene vc w scene is_first is_last = Inr c"
      by auto
    from compose_scene_fields(1) [OF c] none have "clip_duration c = None" by simp
    with c False show ?thesis by auto
  qed
  from built valid untimed show ?thesis by auto
qed

theorem compose_scene_unset_duration_witness:
  "image_path untimed_scene = Some (str ''image.png'')
   \<and> audio_path untimed_scene = Some (str ''audio.mp3'')
   \<and> duration untimed_scene = None
   \<and> clip_duration (scene_image_clip (sample_composer 1) (sample_world True) untimed_scene
        (str ''image.png'')) = None
   \<and> compose_scene (sample_composer 1) (sample_world True) untimed_scene True True
       = Inl DurationNotSet
   \<and> (\<exists>c. compose_scene (sample_composer 1) (sample_world True) untimed_scene True False = Inr c
         \<and> clip_duration c = None)"
proof -
  have h1: "image_path untimed_scene = Some (str ''image.png'')"
    and h2: "audio_path untimed_scene = Some (str ''audio.mp3'')"
    and h3: "duration untimed_scene = None"
    by (simp_all add: untimed_scene_def sample_scene_def)
  have on: "enable_transitions (sample_composer 1) \<and> transition_duration (sample_composer 1) > 0"
    by (simp add: sample_composer_def)
  from compose_scene_unset_duration [OF h1 h2, of "sample_composer 1" "sample_world True" True True]
    compose_scene_unset_duration [OF h1 h2, of "sample_composer 1" "sample_world True" True False]
    h1 h2 h3 on
  show ?thesis by simp
qed


section \<open>Resolution selection\<close>

text \<open>
  C7. The resolution \<open>4k\<close> gives a pipeline whose composer has the frame size 3840 by
  2160, and a resolution key that is none of the four presets gives the size 1920 by
  1080.
\<close>

theorem resolution_selection:
  "(\<exists>p. DDalkkakPipeline target test subtitles transitions (str ''4k'') = Some p
        \<and> width (video_composer p) = 3840 \<and> height (video_composer p) = 2160)
   \<and> (res \<notin> {str ''720p'', str ''1080p'', str ''1440p'', str ''4k''} \<longrightarrow>
       (\<exists>p. DDalkkakPipeline target test subtitles transitions res = Some p
        \<and> width (video_composer p) = 1920 \<and> height (video_composer p) = 1080))"
  by (simp add: DDalkkakPipeline_def select_resolution_def RESOLUTION_PRESETS_def
      VideoComposer_def str_def)

theorem resolution_selection_witness:
  "str ''8k'' \<notin> {str ''720p'', str ''1080p'', str ''1440p'', str ''4k''}
   \<and> (\<exists>p. DDalkkakPipeline 180 False True True (str ''8k'') = Some p
        \<and> width (video_composer p) = 1920 \<and> height (video_composer p) = 1080)"
proof -
  have h: "str ''8k'' \<notin> {str ''720p'', str ''1080p'', str ''1440p'', str ''4k''}"
    by (simp add: str_def)
  show ?thesis
    using h resolution_selection [of 180 False True True "str ''8k''"] by blast
qed


section \<open>The loop of \<open>compose\<close>\<close>

lemma compose_clips_built:
  "list_all (\<lambda>(i, s). image_path s \<noteq> None \<and> audio_path s \<noteq> None \<and> duration s \<noteq> None) xs \<Longrightarrow>
   \<exists>cs. compose_clips vc w n xs acc = (None, acc @ cs)
      \<and> list_all2 (\<lambda>(i, s) c. compose_scene vc w s (i = 0) (int i = int n - 1) = Inr c) xs cs"
proof (induction xs arbitrary: acc)
  case Nil
  then show ?case by simp
next
  case (Cons x xs)
  obtain i s where x: "x = (i, s)" by (cases x)
  from Cons.prems x obtain c
    where c: "compose_scene vc w s (i = 0) (int i = int n - 1) = Inr c"
    using compose_scene_Inr [of s vc w "i = 0" "int i = int n - 1"] by auto
  from Cons.prems
  have "list_all (\<lambda>(i, s). image_path s \<noteq> None \<and> audio_path s \<noteq> None \<and> duration s \<noteq> None) xs"
    by simp
  from Cons.IH [OF this, of "acc @ [c]"] obtain cs
    where cs: "compose_clips vc w n xs (acc @ [c]) = (None, (acc @ [c]) @ cs)"
      and rel: "list_all2 (\<lambda>(i, s) c. compose_scene vc w s (i = 0) (int i = int n - 1) = Inr c) xs cs"
    by blast
  have "compose_clips vc w n (x # xs) acc = (None, acc @ (c # cs))"
    using x c cs by (simp add: Let_def)
  moreover have "list_all2 (\<lambda>(i, s) c. compose_scene vc w s (i = 0) (int i = int n - 1) = Inr c)
                   (x # xs) (c # cs)"
    using x c rel by simp
  ultimately show ?case by blast
qed

lemma compose_clips_open:
  "list_all (\<lambda>c. \<not> clip_closed c) acc \<Longrightarrow> compose_clips vc w n xs acc = (eo, cs) \<Longrightarrow>
   list_all (\<lambda>c. \<not> clip_closed c) cs"
proof (induction xs arbitrary: acc)
  case Nil
  then show ?case by simp
next
  case (Cons x xs)
  obtain i s where x: "x = (i, s)" by (cases x)
  show ?case
  proof (cases "compose_scene vc w s (i = 0) (int i = int n - 1)")
    case (Inl e)
    with Cons.prems x show ?thesis by (simp add: Let_def)
  next
    case (Inr c)
    then have "\<not> clip_closed c" by (rule compose_scene_fields(2))
    with Cons.prems(1) have "list_all (\<lambda>c. \<not> clip_closed c) (acc @ [c])" by simp
    moreover from Cons.prems(2) x Inr have "compose_clips vc w n xs (acc @ [c]) = (eo, cs)"
      by (simp add: Let_def)
    ultimately show ?thesis by (rule Cons.IH)
  qed
qed

text \<open>The clips of the loop for a script whose scenes all have image, audio and duration.\<close>

lemma script_clips:
  assumes "list_all (\<lambda>s. image_path s \<noteq> None \<and> audio_path s \<noteq> None \<and> duration s \<noteq> None) scs"
  shows "\<exists>cs. compose_clips vc w (length scs) (enumerate 0 scs) [] = (None, cs)
      \<and> length cs = length scs
      \<and> (\<forall>k < length scs.
            compose_scene vc w (scs ! k) (k = 0) (int k = int (length scs) - 1) = Inr (cs ! k))"
proof -
  have "list_all (\<lambda>(i, s). image_path s \<noteq> None \<and> audio_path s \<noteq> None \<and> duration s \<noteq> None)
          (enumerate 0 scs)"
    using assms by (auto simp: list_all_iff enumerate_eq_zip dest: set_zip_rightD)
  from compose_clips_built [OF this, of vc w "length scs" "[]"] obtain cs
    where cs: "compose_clips vc w (length scs) (enumerate 0 scs) [] = (None, cs)"
      and rel: "list_all2 (\<lambda>(i, s) c. compose_scene vc w s (i = 0) (int i = int (length scs) - 1) = Inr c)
                  (enumerate 0 scs) cs"
    by auto
  from rel have len: "length cs = length scs"
    by (auto dest: list_all2_lengthD)
  have "compose_scene vc w (scs ! k) (k = 0) (int k = int (length scs) - 1) = Inr (cs ! k)"
    if "k < length scs" for k
    using list_all2_nthD [OF rel, of k] that by (simp add: nth_enumerate_eq)
  with cs len show ?thesis by blast
qed

lemma compose_clips_error:
  "compose_clips vc w n xs acc = (Some e, cs) \<Longrightarrow> e \<noteq> EncodeError"
proof (induction xs arbitrary: acc)
  case Nil
  then show ?case by simp
next
  case (Cons x xs)
  obtain i s where x: "x = (i, s)" by (cases x)
  show ?case
  proof (cases "compose_scene vc w s (i = 0) (int i = int n - 1)")
    case (Inl e')
    with Cons.prems x have "e = e'" by (simp add: Let_def)
    with compose_scene_error [OF Inl] show ?thesis by auto
  next
    case (Inr c)
    with Cons.prems x have "compose_clips vc w n xs (acc @ [c]) = (Some e, cs)"
      by (simp add: Let_def)
    then show ?thesis by (rule Cons.IH)
  qed
qed

lemma scene_clips_compose:
  assumes "compose_clips vc w (length (scenes script)) (enumerate 0 (scenes script)) [] = (None, cs)"
  shows "scene_clips (compose vc w script output_filename) = cs
       \<or> scene_clips (compose vc w script output_filename) = map close_clip cs"
  using assms by (simp add: compose_def Let_def split: sum.splits)

lemma final_clip_compose:
  assumes "compose_clips vc w (length (scenes script)) (enumerate 0 (scenes script)) [] = (None, cs)"
    and "concatenate_videoclips cs = Inr final"
  shows "final_clip (compose vc w script output_filename) = Some final
       \<or> final_clip (compose vc w script output_filename) = Some (close_timeline final)"
  using assms by (simp add: compose_def Let_def)

lemma last_cumsum: "last (cumsum acc ds) = foldl (+) acc ds"
  by (induction ds arbitrary: acc) (simp_all, metis cumsum.elims list.discI)

lemma clip_durations_Some:
  "map clip_duration cs = map Some ds \<Longrightarrow> clip_durations cs = Some ds"
  by (induction cs arbitrary: ds) auto

lemma all_Some_map:
  "list_all (\<lambda>s. duration s \<noteq> None) scs \<Longrightarrow>
   map duration scs = map Some (map (\<lambda>s. case duration s of None \<Rightarrow> 0 | Some d \<Rightarrow> d) scs)"
  by (induction scs) auto


section \<open>Durations\<close>

text \<open>
  C1. For a script with at least one scene whose scenes all have image, audio and
  duration, every scene clip that \<open>compose\<close> builds has the duration of its scene, and the
  concatenated clip has the total duration of the script, the sum of the scenes'
  durations added from the left as Python's \<open>sum\<close> adds them. The equality is exact for
  any addition, floating-point addition included.
\<close>

theorem compose_duration:
  fixes script :: "('d::{zero,plus}) script"
  assumes nonempty: "scenes script \<noteq> []"
    and resolved: "list_all (\<lambda>s. image_path s \<noteq> None \<and> audio_path s \<noteq> None \<and> duration s \<noteq> None)
                     (scenes script)"
  shows "map clip_duration (scene_clips (compose vc w script output_filename))
           = map duration (scenes script)
       \<and> (\<exists>final. final_clip (compose vc w script output_filename) = Some final
              \<and> tl_duration final = total_duration script)"
proof -
  let ?scs = "scenes script"
  let ?ds = "map (\<lambda>s. case duration s of None \<Rightarrow> 0 | Some d \<Rightarrow> d) ?scs"
  from resolved have timed: "list_all (\<lambda>s. duration s \<noteq> None) ?scs"
    by (simp add: list_all_iff)
  from script_clips [OF resolved, of vc w] obtain cs
    where loop: "compose_clips vc w (length ?scs) (enumerate 0 ?scs) [] = (None, cs)"
      and len: "length cs = length ?scs"
      and nth: "\<And>k. k < length ?scs \<Longrightarrow>
                  compose_scene vc w (?scs ! k) (k = 0) (int k = int (length ?scs) - 1) = Inr (cs ! k)"
    by blast
  have durs: "map clip_duration cs = map duration ?scs"
    using len by (intro nth_equalityI) (simp_all add: compose_scene_fields(1) [OF nth])
  have closed_durs: "map clip_duration (map close_clip cs) = map clip_duration cs"
    by (simp add: close_clip_def)
  have part1: "map clip_duration (scene_clips (compose vc w script output_filename))
                 = map duration ?scs"
    using scene_clips_compose [OF loop, of output_filename] durs closed_durs by auto
  from durs all_Some_map [OF timed] have "clip_durations cs = Some ?ds"
    by (simp add: clip_durations_Some)
  moreover from nonempty len have "cs \<noteq> []" by auto
  ultimately have concat:
    "concatenate_videoclips cs =
       Inr \<lparr>tl_clips = cs, tl_start_times = butlast (cumsum 0 ?ds),
            tl_duration = last (cumsum 0 ?ds), tl_closed = False\<rparr>"
    by (simp add: concatenate_videoclips_def Let_def)
  have "last (cumsum 0 ?ds) = total_duration script"
    by (simp add: last_cumsum total_duration_def)
  with final_clip_compose [OF loop concat, of output_filename]
  have "\<exists>final. final_clip (compose vc w script output_filename) = Some final
              \<and> tl_duration final = total_duration script"
    by (auto simp: close_timeline_def)
  with part1 show ?thesis by blast
qed

theorem compose_duration_witness:
  "scenes sample_script \<noteq> []
   \<and> list_all (\<lambda>s. image_path s \<noteq> None \<and> audio_path s \<noteq> None \<and> duration s \<noteq> None)
        (scenes sample_script)
   \<and> map clip_duration (scene_clips (compose (sample_composer 1) (sample_world True) sample_script None))
       = [Some 2, Some 3, Some 4]
   \<and> (\<exists>final. final_clip (compose (sample_composer 1) (sample_world True) sample_script None) = Some final
          \<and> tl_duration final = 9)"
proof -
  have h1: "scenes sample_script \<noteq> []"
    by (simp add: sample_script_def)
  have h2: "list_all (\<lambda>s. image_path s \<noteq> None \<and> audio_path s \<noteq> None \<and> duration s \<noteq> None)
              (scenes sample_script)"
    by (simp add: sample_script_def sample_scene_def)
  have d: "map duration (scenes sample_script) = [Some 2, Some 3, Some 4]"
    by (simp add: sample_script_def sample_scene_def)
  have t: "total_duration sample_script = 9"
    by (simp add: total_duration_def sample_script_def sample_scene_def)
  show ?thesis
    using h1 h2 d t
      compose_duration [OF h1 h2, of "sample_composer 1" "sample_world True" None]
    by simp
qed


section \<open>Fades\<close>

lemma scene_clip_fades:
  assumes resolved: "list_all (\<lambda>s. image_path s \<noteq> None \<and> audio_path s \<noteq> None \<and> duration s \<noteq> None)
                       (scenes script)"
    and k: "k < length (scenes script)"
  shows "clip_fadein (scene_clips (compose vc w script output_filename) ! k) =
           (if enable_transitions vc \<and> k = 0 \<and> transition_duration vc > 0
            then Some (transition_duration vc) else None)"
    and "clip_fadeout (scene_clips (compose vc w script output_filename) ! k) =
           (if enable_transitions vc \<and> Suc k = length (scenes script) \<and> transition_duration vc > 0
            then Some (transition_duration vc) else None)"
    and "length (scene_clips (compose vc w script output_filename)) = length (scenes script)"
proof -
  let ?scs = "scenes script"
  from script_clips [OF resolved, of vc w] obtain cs
    where loop: "compose_clips vc w (length ?scs) (enumerate 0 ?scs) [] = (None, cs)"
      and len: "length cs = length ?scs"
      and nth: "\<And>k. k < length ?scs \<Longrightarrow>
                  compose_scene vc w (?scs ! k) (k = 0) (int k = int (length ?scs) - 1) = Inr (cs ! k)"
    by blast
  have last_iff: "(int k = int (length ?scs) - 1) = (Suc k = length ?scs)"
    using k by auto
  have fin: "clip_fadein (cs ! k) =
           (if enable_transitions vc \<and> k = 0 \<and> transition_duration vc > 0
            then Some (transition_duration vc) else None)"
    using compose_scene_fields(3) [OF nth [OF k]] by simp
  have fout: "clip_fadeout (cs ! k) =
           (if enable_transitions vc \<and> Suc k = length ?scs \<and> transition_duration vc > 0
            then Some (transition_duration vc) else None)"
    using compose_scene_fields(4) [OF nth [OF k]] last_iff by simp
  have closed: "clip_fadein (map close_clip cs ! k) = clip_fadein (cs ! k)"
    "clip_fadeout (map close_clip cs ! k) = clip_fadeout (cs ! k)"
    using k len by (simp_all add: close_clip_def)
  from scene_clips_compose [OF loop, of output_filename]
  show "clip_fadein (scene_clips (compose vc w script output_filename) ! k) =
           (if enable_transitions vc \<and> k = 0 \<and> transition_duration vc > 0
            then Some (transition_duration vc) else None)"
    using fin closed by auto
  from scene_clips_compose [OF loop, of output_filename]
  show "clip_fadeout (scene_clips (compose vc w script output_filename) ! k) =
           (if enable_transitions vc \<and> Suc k = length (scenes script) \<and> transition_duration vc > 0
            then Some (transition_duration vc) else None)"
    using fout closed by auto
  from scene_clips_compose [OF loop, of output_filename]
  show "length (scene_clips (compose vc w script output_filename)) = length (scenes script)"
    using len by auto
qed

text \<open>
  C3, as amended. With transitions enabled and a script of more than one scene, each
  with image, audio and duration, \<open>compose\<close> builds one clip per scene, and: when the
  transition duration is above zero, the clip of the first scene and no other has a
  fade-in and the clip of the last scene and no other has a fade-out; when the
  transition duration is zero or below, no clip has a fade. The source applies a fade
  only \<open>if ... and self.transition_duration > 0\<close>.
\<close>

theorem fade_policy:
  assumes "enable_transitions vc"
    and "length (scenes script) > 1"
    and "list_all (\<lambda>s. image_path s \<noteq> None \<and> audio_path s \<noteq> None \<and> duration s \<noteq> None)
           (scenes script)"
  shows "length (scene_clips (compose vc w script output_filename)) = length (scenes script)
       \<and> (\<forall>k < length (scenes script).
            (clip_fadein (scene_clips (compose vc w script output_filename) ! k) \<noteq> None)
              = (k = 0 \<and> transition_duration vc > 0)
          \<and> (clip_fadeout (scene_clips (compose vc w script output_filename) ! k) \<noteq> None)
              = (k = length (scenes script) - 1 \<and> transition_duration vc > 0))"
proof (intro conjI allI impI)
  show "length (scene_clips (compose vc w script output_filename)) = length (scenes script)"
  proof -
    from assms(2) have "0 < length (scenes script)" by (cases "scenes script") auto
    from scene_clip_fades(3) [OF assms(3) this] show ?thesis .
  qed
next
  fix k assume "k < length (scenes script)"
  with assms
  show "(clip_fadein (scene_clips (compose vc w script output_filename) ! k) \<noteq> None)
          = (k = 0 \<and> transition_duration vc > 0)"
    by (simp add: scene_clip_fades(1))
next
  fix k assume k: "k < length (scenes script)"
  then have "(Suc k = length (scenes script)) = (k = length (scenes script) - 1)" by auto
  with assms k
  show "(clip_fadeout (scene_clips (compose vc w script output_filename) ! k) \<noteq> None)
          = (k = length (scenes script) - 1 \<and> transition_duration vc > 0)"
    by (simp add: scene_clip_fades(2))
qed

theorem fade_policy_witness:
  "enable_transitions (sample_composer 1) \<and> transition_duration (sample_composer 1) > 0
   \<and> length (scenes sample_script) > 1
   \<and> list_all (\<lambda>s. image_path s \<noteq> None \<and> audio_path s \<noteq> None \<and> duration s \<noteq> None)
        (scenes sample_script)
   \<and> length (scene_clips (compose (sample_composer 1) (sample_world True) sample_script None)) = 3
   \<and> clip_fadein (scene_clips (compose (sample_composer 1) (sample_world True) sample_script None) ! 0)
       \<noteq> None
   \<and> clip_fadein (scene_clips (compose (sample_composer 1) (sample_world True) sample_script None) ! 1)
       = None
   \<and> clip_fadein (scene_clips (compose (sample_composer 1) (sample_world True) sample_script None) ! 2)
       = None
   \<and> clip_fadeout (scene_clips (compose (sample_composer 1) (sample_world True) sample_script None) ! 0)
       = None
   \<and> clip_fadeout (scene_clips (compose (sample_composer 1) (sample_world True) sample_script None) ! 1)
       = None
   \<and> clip_fadeout (scene_clips (compose (sample_composer 1) (sample_world True) sample_script None) ! 2)
       \<noteq> None
   \<and> enable_transitions (sample_composer 0) \<and> \<not> transition_duration (sample_composer 0) > 0
   \<and> clip_fadein (scene_clips (compose (sample_composer 0) (sample_world True) sample_script None) ! 0)
       = None
   \<and> clip_fadeout (scene_clips (compose (sample_composer 0) (sample_world True) sample_script None) ! 2)
       = None"
proof -
  have h1: "enable_transitions (sample_composer 1)"
    and h2: "transition_duration (sample_composer 1) > 0"
    and z1: "enable_transitions (sample_composer 0)"
    and z2: "\<not> transition_duration (sample_composer 0) > 0"
    by (simp_all add: sample_composer_def)
  have h3: "length (scenes sample_script) > 1"
    and n: "length (scenes sample_script) = 3"
    by (simp_all add: sample_script_def)
  have h4: "list_all (\<lambda>s. image_path s \<noteq> None \<and> audio_path s \<noteq> None \<and> duration s \<noteq> None)
              (scenes sample_script)"
    by (simp add: sample_script_def sample_scene_def)
  note policy = fade_policy [OF h1 h3 h4, of "sample_world True" None, unfolded n]
  note policy0 = fade_policy [OF z1 h3 h4, of "sample_world True" None, unfolded n]
  from policy have len:
    "length (scene_clips (compose (sample_composer 1) (sample_world True) sample_script None)) = 3"
    by simp
  from policy h2 have each: "\<And>k. k < 3 \<Longrightarrow>
      (clip_fadein (scene_clips (compose (sample_composer 1) (sample_world True) sample_script None) ! k)
         \<noteq> None) = (k = 0)
    \<and> (clip_fadeout (scene_clips (compose (sample_composer 1) (sample_world True) sample_script None) ! k)
         \<noteq> None) = (k = 2)"
    by simp
  from policy0 z2 have each0: "\<And>k. k < 3 \<Longrightarrow>
      clip_fadein (scene_clips (compose (sample_composer 0) (sample_world True) sample_script None) ! k)
         = None
    \<and> clip_fadeout (scene_clips (compose (sample_composer 0) (sample_world True) sample_script None) ! k)
         = None"
    by simp
  from each [of 0] each [of 1] each [of 2] each0 [of 0] each0 [of 2] h1 h2 h3 h4 z1 z2 len
  show ?thesis by simp
qed

text \<open>
  With a transition duration of zero and transitions enabled, the clip of the first of
  three timed scenes has no fade-in and the clip of the last has no fade-out.
\<close>

theorem fade_needs_positive_duration_counterexample:
  "enable_transitions (sample_composer 0) \<and> length (scenes sample_script) = 3
   \<and> clip_fadein (scene_clips (compose (sample_composer 0) (sample_world True) sample_script None) ! 0) = None
   \<and> clip_fadeout (scene_clips (compose (sample_composer 0) (sample_world True) sample_script None) ! 2) = None"
  by (simp add: sample_defs compose_defs Let_def)


section \<open>Closing the clips\<close>

text \<open>
  When \<open>compose\<close> returns a path, every scene clip and the concatenated clip are closed:
  the lines after \<open>write_videofile\<close> close them.
\<close>

lemma compose_closes_after_encoding:
  assumes "outcome (compose vc w script output_filename) = Inr path"
  shows "list_all clip_closed (scene_clips (compose vc w script output_filename))"
    and "\<exists>final. final_clip (compose vc w script output_filename) = Some final \<and> tl_closed final"
proof -
  obtain eo cs
    where loop: "compose_clips vc w (length (scenes script)) (enumerate 0 (scenes script)) [] = (eo, cs)"
    by (cases "compose_clips vc w (length (scenes script)) (enumerate 0 (scenes script)) []")
  from assms loop
  show "list_all clip_closed (scene_clips (compose vc w script output_filename))"
    by (auto simp: compose_def Let_def close_clip_def list_all_iff
        split: option.splits sum.splits if_splits)
  from assms loop
  show "\<exists>final. final_clip (compose vc w script output_filename) = Some final \<and> tl_closed final"
    by (auto simp: compose_def Let_def close_timeline_def
        split: option.splits sum.splits if_splits)
qed

text \<open>
  C5. The claim promises the release of the scene clips whether encoding succeeds or
  fails. At this input it does not hold: the three scenes have image, audio and
  duration, the encoder fails, \<open>compose\<close> ends with the encoder's error, and none of the
  three scene clips, nor the concatenated clip, has been closed. The calls that close
  them follow \<open>write_videofile\<close> and are not reached.
\<close>

theorem encoder_failure_leaves_clips_open:
  "outcome (compose (sample_composer 1) (sample_world False) sample_script None) = Inl EncodeError
   \<and> map clip_closed (scene_clips (compose (sample_composer 1) (sample_world False) sample_script None))
       = [False, False, False]
   \<and> map_option tl_closed (final_clip (compose (sample_composer 1) (sample_world False) sample_script None))
       = Some False"
  by (simp add: sample_defs compose_defs Let_def)


section \<open>Empty narration\<close>

text \<open>
  C6, as amended. For a scene with an empty narration, \<open>compose_scene\<close> does not call the
  overlay renderer: the clip it returns shows the resized image as it is, and it
  returns one whenever image, audio and duration are set. The renderer itself, called
  with an empty text, draws no line of text but still fills the background band from
  row \<open>height - 80\<close> to row \<open>height - 40\<close>.
\<close>

theorem empty_narration_skips_overlay:
  "(narration scene = [] \<longrightarrow> image_path scene = Some ip \<longrightarrow> audio_path scene = Some ap \<longrightarrow>
      duration scene \<noteq> None \<longrightarrow>
      (\<exists>c. compose_scene vc w scene is_first is_last = Inr c
           \<and> clip_frame c = resize w (open_image w ip) (width vc) (height vc)))
   \<and> (narration scene = [] \<longrightarrow> image_path scene = Some ip \<longrightarrow>
      compose_scene vc w scene is_first is_last = Inr c' \<longrightarrow>
      clip_frame c' = resize w (open_image w ip) (width vc) (height vc))
   \<and> add_subtitle_to_image vc fnt img_array []
       = draw_rectangle img_array 0 (height vc - 80) (width vc) (height vc - 40) (0, 0, 0)"
proof -
  have frame: "clip_frame (scene_image_clip vc w scene ip)
                 = resize w (open_image w ip) (width vc) (height vc)"
    if "narration scene = []"
    using that by (simp add: scene_image_clip_def Let_def set_duration_def ImageClip_def)
  have returned: "clip_frame c' = resize w (open_image w ip) (width vc) (height vc)"
    if "narration scene = []" "image_path scene = Some ip"
      "compose_scene vc w scene is_first is_last = Inr c'"
    using compose_scene_fields(5) [OF that(3)] that(2) frame [OF that(1)] by auto
  have exists: "\<exists>c. compose_scene vc w scene is_first is_last = Inr c
           \<and> clip_frame c = resize w (open_image w ip) (width vc) (height vc)"
    if "narration scene = []" "image_path scene = Some ip" "audio_path scene = Some ap"
      "duration scene \<noteq> None"
  proof -
    from that obtain c where c: "compose_scene vc w scene is_first is_last = Inr c"
      using compose_scene_Inr [of scene vc w is_first is_last] by auto
    from compose_scene_fields(5) [OF c] that(2) frame [OF that(1)]
    have "clip_frame c = resize w (open_image w ip) (width vc) (height vc)" by auto
    with c show ?thesis by blast
  qed
  have band: "add_subtitle_to_image vc fnt img_array []
       = draw_rectangle img_array 0 (height vc - 80) (width vc) (height vc - 40) (0, 0, 0)"
    by (simp add: add_subtitle_to_image_def subtitle_lines_def cap_lines_def wrap_text_def)
  from exists returned band show ?thesis by blast
qed

theorem empty_narration_skips_overlay_witness:
  "narration (sample_scene 1 [] (Some 2)) = []
   \<and> image_path (sample_scene 1 [] (Some 2)) = Some (str ''image.png'')
   \<and> audio_path (sample_scene 1 [] (Some 2)) = Some (str ''audio.mp3'')
   \<and> duration (sample_scene 1 [] (Some 2)) \<noteq> None
   \<and> (\<exists>c. compose_scene (sample_composer 1) (sample_world True) (sample_scene 1 [] (Some 2)) True True = Inr c
         \<and> clip_frame c = replicate 40 [white])"
proof -
  have h1: "narration (sample_scene 1 [] (Some 2)) = []"
    and h2: "image_path (sample_scene 1 [] (Some 2)) = Some (str ''image.png'')"
    and h3: "audio_path (sample_scene 1 [] (Some 2)) = Some (str ''audio.mp3'')"
    and h4: "duration (sample_scene 1 [] (Some 2)) \<noteq> None"
    by (simp_all add: sample_scene_def)
  have r: "resize (sample_world True) (open_image (sample_world True) (str ''image.png''))
             (width (sample_composer 1)) (height (sample_composer 1)) = replicate 40 [white]"
    by (simp add: sample_world_def sample_composer_def)
  show ?thesis
    using h1 h2 h3 h4 r
      empty_narration_skips_overlay [of "sample_scene 1 [] (Some 2)" "str ''image.png''"
        "str ''audio.mp3''" "sample_composer 1" "sample_world True" True True]
    by simp
qed

text \<open>
  On a white frame of the composer's size, the renderer called with an empty text
  returns a frame that differs from its input.
\<close>

theorem empty_text_draws_band_counterexample:
  "add_subtitle_to_image (sample_composer 1) sample_font (replicate 40 [white]) []
     \<noteq> replicate 40 [white]"
proof -
  have "add_subtitle_to_image (sample_composer 1) sample_font (replicate 40 [white]) [] ! 0
          = [(0, 0, 0)]"
    by (simp add: add_subtitle_to_image_def subtitle_lines_def cap_lines_def wrap_text_def
        sample_defs draw_rectangle_def Let_def numeral_eq_Suc)
  moreover have "replicate 40 [white] ! 0 = [(255, 255, 255)]"
    by (simp add: white_def)
  ultimately show ?thesis by (auto simp: white_def)
qed


section \<open>Scene count and scene numbers of a generated script\<close>

text \<open>
  C8, as amended. \<open>generate\<close> computes the number of scenes to ask for as
  \<open>max(5, target_duration // 18)\<close>. In placeholder mode the script has exactly five
  scenes for every target duration, numbered 1 to 5 in this order. With the language
  model, the number is passed to the model, and the scenes and scene numbers of the
  script are those of the model's answer, as they come.
\<close>

theorem generated_script:
  "generate True client prompt target
     = Inr (generate_placeholder prompt (num_scenes_for target) :: 'd script)
   \<and> num_scenes_for target = max 5 (target div 18)
   \<and> map scene_number (scenes (generate_placeholder prompt (num_scenes_for target) :: 'd script))
       = [1, 2, 3, 4, 5]
   \<and> (client prompt (num_scenes_for target) (target div 60) = Some (t, ss) \<longrightarrow>
       (\<exists>s :: 'd script. generate False client prompt target = Inr s
            \<and> map scene_number (scenes s) = map fst ss))"
proof -
  have "nat (min (num_scenes_for target) 5) = 5"
    by (simp add: num_scenes_for_def)
  then have "[0 ..< nat (min (num_scenes_for target) 5)] = [0, 1, 2, 3, 4]"
    by (simp add: upt_rec)
  then have placeholder:
    "map scene_number (scenes (generate_placeholder prompt (num_scenes_for target) :: 'd script))
       = [1, 2, 3, 4, 5]"
    by (simp add: generate_placeholder_def Scene_def)
  have mode: "generate True client prompt target
     = Inr (generate_placeholder prompt (num_scenes_for target) :: 'd script)"
    by (simp add: generate_def Let_def)
  have count: "num_scenes_for target = max 5 (target div 18)"
    by (simp add: num_scenes_for_def)
  have numbers: "map scene_number (map (\<lambda>(n, narr, ip). Scene n narr ip :: 'd scene) xs) = map fst xs"
    for xs :: "(int \<times> pystr \<times> pystr) list"
    by (induction xs) (auto simp: Scene_def)
  have api: "\<exists>s :: 'd script. generate False client prompt target = Inr s
                \<and> map scene_number (scenes s) = map fst ss"
    if "client prompt (num_scenes_for target) (target div 60) = Some (t, ss)"
    using that numbers [of ss] by (simp add: generate_def Let_def)
  from mode count placeholder api show ?thesis by blast
qed

theorem generated_script_witness:
  "scripted (str ''test'') (num_scenes_for 90) (90 div 60)
     = Some (str ''talk'', [(2, str ''second'', str ''blue''), (1, str ''first'', str ''red'')])
   \<and> (\<exists>s :: real script. generate False scripted (str ''test'') 90 = Inr s
         \<and> map scene_number (scenes s) = [2, 1])"
proof -
  have h: "scripted (str ''test'') (num_scenes_for 90) (90 div 60)
     = Some (str ''talk'', [(2, str ''second'', str ''blue''), (1, str ''first'', str ''red'')])"
    by (simp add: scripted_def)
  from generated_script [where 'd = real, of scripted "str ''test''" 90 "str ''talk''"
      "[(2, str ''second'', str ''blue''), (1, str ''first'', str ''red'')]"] h
  have "\<exists>s :: real script. generate False scripted (str ''test'') 90 = Inr s
         \<and> map scene_number (scenes s) = [2, 1]"
    by simp
  with h show ?thesis by blast
qed

text \<open>
  In placeholder mode a target of 1800 seconds asks for 100 scenes and gives a script
  of 5.
\<close>

theorem placeholder_scene_count_counterexample:
  "num_scenes_for 1800 = 100
   \<and> generate True offline (str ''test'') 1800
       = Inr (generate_placeholder (str ''test'') (num_scenes_for 1800) :: real script)
   \<and> length (scenes (generate_placeholder (str ''test'') (num_scenes_for 1800) :: real script)) = 5"
proof -
  have "[0 ..< nat (min 100 5)] = [0, 1, 2, 3, 4]"
    by (simp add: upt_rec)
  then show ?thesis
    by (simp add: generate_def generate_placeholder_def Let_def num_scenes_for_def)
qed

end
